theory Spec2Isabelle
  imports Main "HOL-Library.Word" "HOL-Library.Sublist"
begin

unbundle bit_operations_syntax

section \<open>The LLM council loaders (src/loaders.py)\<close>

text \<open>
  A shallow embedding of \<^verbatim>\<open>build_agent_prompt_text\<close>, \<^verbatim>\<open>safe_json_load\<close> and
  \<^verbatim>\<open>parse_council_df\<close> of \<^verbatim>\<open>project1-llm-council-cfb/src/loaders.py\<close>.

  Three collaborators are libraries, not code of the repository, and are parameters
  of the model:
  \<^item> \<^verbatim>\<open>json.loads\<close> is the argument \<open>loads\<close>: it returns a value or raises;
  \<^item> \<^verbatim>\<open>json_repair.repair_json\<close> is the argument \<open>repair_json\<close>: \<open>None\<close> when the
    import failed (the module then binds the name to \<^verbatim>\<open>None\<close>), \<open>Some f\<close> otherwise;
  \<^item> \<^verbatim>\<open>pandas\<close>: the input frame is the list of its rows in \<^verbatim>\<open>iterrows()\<close> order, a
    row (a Series) is an association list from column labels to cell values, and the
    result is the list \<^verbatim>\<open>records\<close> that is handed to \<^verbatim>\<open>pd.DataFrame\<close>.
\<close>

subsection \<open>Python values and exceptions\<close>

text \<open>
  The values \<^verbatim>\<open>json.loads\<close> can return, which are also the values a cell or an output
  field holds. A \<^verbatim>\<open>float\<close> is its IEEE 754 binary64 bit pattern (CPython's C double), a
  \<^verbatim>\<open>str\<close> the list of its characters, a \<^verbatim>\<open>dict\<close> its items in insertion order (keys
  are strings, as in every dict \<^verbatim>\<open>json.loads\<close> builds and every record literal of the
  source).
\<close>

datatype pyval =
    PNone
  | PBool bool
  | PInt int
  | PFloat "64 word"
  | PStr string
  | PList "pyval list"
  | PDict "(string \<times> pyval) list"

text \<open>
  Exceptions, as values. All of them are subclasses of \<^verbatim>\<open>Exception\<close>, which is what
  the two \<^verbatim>\<open>except Exception\<close> clauses of the source catch.
\<close>

datatype exn = JSONDecodeError | TypeError | ValueError | AttributeError | OtherException string

type_synonym pydict = "(string \<times> pyval) list"

type_synonym row = "(string \<times> pyval) list"

text \<open>Sequencing of two computations that may raise: the first exception propagates.\<close>

definition then_do :: "exn + 'a \<Rightarrow> ('a \<Rightarrow> exn + 'b) \<Rightarrow> exn + 'b" where
  "then_do m f = (case m of Inl e \<Rightarrow> Inl e | Inr v \<Rightarrow> f v)"

text \<open>
  Truth value testing (\<^verbatim>\<open>bool(x)\<close>): \<^verbatim>\<open>None\<close>, \<^verbatim>\<open>False\<close>, zero of a numeric type and
  empty containers are false. A float is zero when all bits but the sign are clear
  (\<open>+0.0\<close> and \<open>-0.0\<close>); NaN is true.
\<close>

fun py_truthy :: "pyval \<Rightarrow> bool" where
  "py_truthy PNone = False"
| "py_truthy (PBool b) = b"
| "py_truthy (PInt i) = (i \<noteq> 0)"
| "py_truthy (PFloat w) = (w AND 0x7FFFFFFFFFFFFFFF \<noteq> 0)"
| "py_truthy (PStr s) = (s \<noteq> [])"
| "py_truthy (PList xs) = (xs \<noteq> [])"
| "py_truthy (PDict kvs) = (kvs \<noteq> [])"

text \<open>\<^verbatim>\<open>x or y\<close>: \<open>x\<close> when it is true, otherwise \<open>y\<close>.\<close>

definition py_or :: "pyval \<Rightarrow> pyval \<Rightarrow> pyval" where
  "py_or x y = (if py_truthy x then x else y)"

text \<open>\<^verbatim>\<open>isinstance(x, dict)\<close>.\<close>

fun isinstance_dict :: "pyval \<Rightarrow> bool" where
  "isinstance_dict (PDict kvs) = True"
| "isinstance_dict _ = False"

text \<open>\<^verbatim>\<open>dict.get(key, default)\<close> on the items of a dict.\<close>

definition dict_get :: "pydict \<Rightarrow> string \<Rightarrow> pyval \<Rightarrow> pyval" where
  "dict_get kvs k dflt = (case map_of kvs k of None \<Rightarrow> dflt | Some v \<Rightarrow> v)"

text \<open>
  The method call \<^verbatim>\<open>obj.get(key, default)\<close> on a value of any type: only a dict has
  the attribute \<^verbatim>\<open>get\<close>; on \<^verbatim>\<open>None\<close>, a bool, an int, a float, a str or a list the
  attribute lookup raises \<^verbatim>\<open>AttributeError\<close>.
\<close>

fun py_get :: "pyval \<Rightarrow> string \<Rightarrow> pyval \<Rightarrow> exn + pyval" where
  "py_get (PDict kvs) k dflt = Inr (dict_get kvs k dflt)"
| "py_get _ k dflt = Inl AttributeError"

text \<open>
  \<^verbatim>\<open>row.get(label, default)\<close> on a row of the frame: the cell when the row has the
  label, the default otherwise.
\<close>

definition row_get :: "row \<Rightarrow> string \<Rightarrow> pyval \<Rightarrow> pyval" where
  "row_get r label dflt = (case map_of r label of None \<Rightarrow> dflt | Some v \<Rightarrow> v)"

subsection \<open>build_agent_prompt_text\<close>

text \<open>
  \<^verbatim>\<open>
  return (
      agent_system_prompt
      + "\n\n"
      + "----- GAME_DATA (TOON) -----\n"
      + game_data_text
      + "\n\n"
      + "You are part of a council predicting the outcome of this game.\n"
        "Return ONLY a single JSON object matching the agreed schema."
  )
  \<close>
\<close>

definition build_agent_prompt_text :: "string \<Rightarrow> string \<Rightarrow> string" where
  "build_agent_prompt_text agent_system_prompt game_data_text =
     agent_system_prompt
     @ ''\<newline>\<newline>''
     @ ''----- GAME_DATA (TOON) -----\<newline>''
     @ game_data_text
     @ ''\<newline>\<newline>''
     @ ''You are part of a council predicting the outcome of this game.\<newline>Return ONLY a single JSON object matching the agreed schema.''"

subsection \<open>safe_json_load\<close>

text \<open>
  \<^verbatim>\<open>
  try:
      return json.loads(s)
  except Exception:
      pass
  if repair_json is not None:
      try:
          repaired = repair_json(s)
          return json.loads(repaired)
      except Exception:
          return None
  return None
  \<close>
  The result is a Python value or an escaping exception; \<^verbatim>\<open>None\<close> is \<open>PNone\<close>.
\<close>

definition safe_json_load ::
  "(pyval \<Rightarrow> exn + pyval) \<Rightarrow> (pyval \<Rightarrow> exn + pyval) option \<Rightarrow> pyval \<Rightarrow> exn + pyval" where
  "safe_json_load loads repair_json s =
     (case loads s of
        Inr v \<Rightarrow> Inr v
      | Inl _ \<Rightarrow>
          (case repair_json of
             Some repair \<Rightarrow>
               (case then_do (repair s) (\<lambda>repaired. loads repaired) of
                  Inr v \<Rightarrow> Inr v
                | Inl _ \<Rightarrow> Inr PNone)
           | None \<Rightarrow> Inr PNone))"

subsection \<open>parse_council_df\<close>

text \<open>
  One iteration of \<^verbatim>\<open>for _, row in council_raw.iterrows()\<close>: the record the iteration
  appends to \<^verbatim>\<open>records\<close>, or the exception it raises. The values of the dict literal
  are evaluated in the order they are written.
\<close>

definition loop_body ::
  "(pyval \<Rightarrow> exn + pyval) \<Rightarrow> (pyval \<Rightarrow> exn + pyval) option \<Rightarrow> row \<Rightarrow> exn + pydict" where
  "loop_body loads repair_json row =
     (let raw = row_get row ''completion_text'' (PStr '''');
          model_name = row_get row ''model'' PNone
      in
      then_do (safe_json_load loads repair_json raw) (\<lambda>data.
      if data = PNone \<or> \<not> isinstance_dict data then
        Inr [(''model'', model_name),
             (''raw'', raw),
             (''valid_json'', PBool False)]
      else
      then_do (py_get data ''projected_score'' (PDict [])) (\<lambda>got.
      let projected_score = py_or got (PDict []) in
      then_do (py_get data ''winner_team_id'' PNone) (\<lambda>winner_team_id.
      then_do (py_get data ''winner_team_name'' PNone) (\<lambda>winner_team_name.
      then_do (py_get projected_score ''1'' PNone) (\<lambda>score_team_1.
      then_do (py_get projected_score ''2'' PNone) (\<lambda>score_team_2.
      then_do (py_get data ''confidence_winner'' PNone) (\<lambda>confidence_winner.
      then_do (py_get data ''confidence_score_band'' PNone) (\<lambda>confidence_score_band.
      then_do (py_get data ''key_factors'' (PList [])) (\<lambda>key_factors.
      then_do (py_get data ''risk_factors'' (PList [])) (\<lambda>risk_factors.
      Inr [(''model'', model_name),
           (''valid_json'', PBool True),
           (''winner_team_id'', winner_team_id),
           (''winner_team_name'', winner_team_name),
           (''score_team_1'', score_team_1),
           (''score_team_2'', score_team_2),
           (''confidence_winner'', confidence_winner),
           (''confidence_score_band'', confidence_score_band),
           (''key_factors'', key_factors),
           (''risk_factors'', risk_factors)])))))))))))"

text \<open>
  The loop over the rows, with \<^verbatim>\<open>records\<close> as the accumulator: an exception in one
  iteration leaves the loop and the function.
\<close>

fun iterrows_loop ::
  "(pyval \<Rightarrow> exn + pyval) \<Rightarrow> (pyval \<Rightarrow> exn + pyval) option \<Rightarrow> row list \<Rightarrow> pydict list
     \<Rightarrow> exn + pydict list" where
  "iterrows_loop loads repair_json [] records = Inr records"
| "iterrows_loop loads repair_json (row # rest) records =
     (case loop_body loads repair_json row of
        Inl e \<Rightarrow> Inl e
      | Inr r \<Rightarrow> iterrows_loop loads repair_json rest (records @ [r]))"

definition parse_council_df ::
  "(pyval \<Rightarrow> exn + pyval) \<Rightarrow> (pyval \<Rightarrow> exn + pyval) option \<Rightarrow> row list \<Rightarrow> exn + pydict list" where
  "parse_council_df loads repair_json council_raw = iterrows_loop loads repair_json council_raw []"

subsection \<open>Sample inputs\<close>

text \<open>
  The completion text of Scenario A and the value \<^verbatim>\<open>json.loads\<close> returns on it
  (\<open>0x3FE428F5C28F5C29\<close> is the double nearest to 0.63).
\<close>

definition scenario_A_text :: string where
  \<open>scenario_A_text = ''{"winner_team_id": 1, "winner_team_name": "Texas", "projected_score": {"1": 27, "2": 24}, "confidence_winner": 0.63, "confidence_score_band": "medium", "key_factors": ["offense"], "risk_factors": []}''\<close>

definition scenario_A_data :: pyval where
  "scenario_A_data =
     PDict [(''winner_team_id'', PInt 1),
            (''winner_team_name'', PStr ''Texas''),
            (''projected_score'', PDict [(''1'', PInt 27), (''2'', PInt 24)]),
            (''confidence_winner'', PFloat 0x3FE428F5C28F5C29),
            (''confidence_score_band'', PStr ''medium''),
            (''key_factors'', PList [PStr ''offense'']),
            (''risk_factors'', PList [])]"

text \<open>
  \<^verbatim>\<open>json.loads\<close> on the texts used as concrete inputs below, as a table: the value it
  returns on each listed text, \<^verbatim>\<open>JSONDecodeError\<close> on the texts that are not JSON
  (\<^verbatim>\<open>not json at all\<close>, the empty text) and \<^verbatim>\<open>TypeError\<close> on a value that is not a
  string. The table says nothing about other texts; it only serves to run the model.
\<close>

definition sample_loads :: "pyval \<Rightarrow> exn + pyval" where
  \<open>sample_loads s =
     (if s = PStr scenario_A_text then Inr scenario_A_data
      else if s = PStr ''[1, 2]'' then Inr (PList [PInt 1, PInt 2])
      else if s = PStr ''42'' then Inr (PInt 42)
      else if s = PStr ''null'' then Inr PNone
      else if s = PStr ''{}'' then Inr (PDict [])
      else if s = PStr ''{"projected_score": 5}'' then
        Inr (PDict [(''projected_score'', PInt 5)])
      else if s = PStr ''{"projected_score": "27-24"}'' then
        Inr (PDict [(''projected_score'', PStr ''27-24'')])
      else if s = PStr ''{"projected_score": null}'' then
        Inr (PDict [(''projected_score'', PNone)])
      else if s = PStr ''{"projected_score": [], "winner_team_name": "Rice"}'' then
        Inr (PDict [(''projected_score'', PList []), (''winner_team_name'', PStr ''Rice'')])
      else if s = PStr ''{"projected_score": 0, "key_factors": null}'' then
        Inr (PDict [(''projected_score'', PInt 0), (''key_factors'', PNone)])
      else if s = PStr ''{"winner_team_id": 2, "risk_factors": null}'' then
        Inr (PDict [(''winner_team_id'', PInt 2), (''risk_factors'', PNone)])
      else (case s of PStr _ \<Rightarrow> Inl JSONDecodeError | _ \<Rightarrow> Inl TypeError))\<close>

text \<open>
  A stand-in for the repair capability, to run the model with one: it returns the
  empty text on \<^verbatim>\<open>not json at all\<close> (so the second parse fails) and raises on
  everything else.
\<close>

definition sample_repair :: "pyval \<Rightarrow> exn + pyval" where
  "sample_repair s =
     (if s = PStr ''not json at all'' then Inr (PStr [])
      else Inl (OtherException ''repair failed''))"

text \<open>
  From the JSON grammar (RFC 8259), not from the source: the texts that are integer
  literals of strict JSON (an optional minus sign, then \<^verbatim>\<open>0\<close> or a digit from 1 to 9
  followed by digits), and the integer such a text denotes. They state what the
  specification calls valid strict JSON, on the integers.
\<close>

definition strict_json_integer :: "string \<Rightarrow> bool" where
  "strict_json_integer t =
     (let ds = (if t \<noteq> [] \<and> hd t = CHR ''-'' then tl t else t)
      in ds \<noteq> [] \<and> list_all (\<lambda>c. c \<in> set ''0123456789'') ds \<and> (hd ds = CHR ''0'' \<longrightarrow> ds = ''0''))"

definition strict_json_integer_value :: "string \<Rightarrow> int" where
  "strict_json_integer_value t =
     (let dec = foldl (\<lambda>n c. 10 * n + (of_char c - 48)) 0
      in if t \<noteq> [] \<and> hd t = CHR ''-'' then - dec (tl t) else dec t)"

text \<open>
  A text of 4301 digits \<^verbatim>\<open>1\<close>. CPython (3.11 and later, and the security releases of
  the earlier versions) refuses to convert a decimal text of more than 4300 digits to
  an \<^verbatim>\<open>int\<close>: \<^verbatim>\<open>json.loads\<close> raises \<^verbatim>\<open>ValueError\<close> on this text. \<open>sample_loads_limit\<close> is
  \<open>sample_loads\<close> with that entry added.
\<close>

definition long_integer_text :: string where
  "long_integer_text = replicate 4301 (CHR ''1'')"

definition sample_loads_limit :: "pyval \<Rightarrow> exn + pyval" where
  "sample_loads_limit s = (if s = PStr long_integer_text then Inl ValueError else sample_loads s)"

text \<open>
  \<^verbatim>\<open>json.dumps\<close> on the sample values, as a table (the text it returns on each listed
  value, with the default separators); it says nothing about other values.
\<close>

definition sample_dumps :: "pyval \<Rightarrow> pyval" where
  "sample_dumps v =
     (if v = scenario_A_data then PStr scenario_A_text
      else if v = PList [PInt 1, PInt 2] then PStr ''[1, 2]''
      else if v = PInt 42 then PStr ''42''
      else if v = PDict [] then PStr ''{}''
      else PStr ''null'')"

section \<open>Properties of the iteration and of the loop\<close>

text \<open>
  \<open>safe_json_load\<close> has no escaping exception; an iteration of the loop either appends
  the minimal record, appends the full record, or raises \<^verbatim>\<open>AttributeError\<close> at
  \<^verbatim>\<open>projected_score.get\<close>; the loop returns one record per row, in order, when every
  iteration appends, and raises as soon as one iteration raises.
\<close>

lemma safe_json_load_total: "\<exists>v. safe_json_load loads repair_json s = Inr v"
  by (auto simp: safe_json_load_def split: sum.splits option.splits)

lemma loop_body_minimal:
  assumes "safe_json_load loads repair_json (row_get row ''completion_text'' (PStr [])) = Inr data"
    and "data = PNone \<or> \<not> isinstance_dict data"
  shows "loop_body loads repair_json row =
           Inr [(''model'', row_get row ''model'' PNone),
                (''raw'', row_get row ''completion_text'' (PStr [])),
                (''valid_json'', PBool False)]"
  using assms by (auto simp: loop_body_def then_do_def)

lemma loop_body_full:
  assumes "safe_json_load loads repair_json (row_get row ''completion_text'' (PStr [])) = Inr (PDict d)"
    and "py_or (dict_get d ''projected_score'' (PDict [])) (PDict []) = PDict ps"
  shows "loop_body loads repair_json row =
           Inr [(''model'', row_get row ''model'' PNone),
                (''valid_json'', PBool True),
                (''winner_team_id'', dict_get d ''winner_team_id'' PNone),
                (''winner_team_name'', dict_get d ''winner_team_name'' PNone),
                (''score_team_1'', dict_get ps ''1'' PNone),
                (''score_team_2'', dict_get ps ''2'' PNone),
                (''confidence_winner'', dict_get d ''confidence_winner'' PNone),
                (''confidence_score_band'', dict_get d ''confidence_score_band'' PNone),
                (''key_factors'', dict_get d ''key_factors'' (PList [])),
                (''risk_factors'', dict_get d ''risk_factors'' (PList []))]"
  using assms by (simp add: loop_body_def then_do_def)

lemma loop_body_raises:
  assumes "safe_json_load loads repair_json (row_get row ''completion_text'' (PStr [])) = Inr (PDict d)"
    and "\<not> isinstance_dict (py_or (dict_get d ''projected_score'' (PDict [])) (PDict []))"
  shows "loop_body loads repair_json row = Inl AttributeError"
  using assms
  by (cases "py_or (dict_get d ''projected_score'' (PDict [])) (PDict [])")
     (simp_all add: loop_body_def then_do_def)

lemma iterrows_loop_Inr:
  "iterrows_loop loads repair_json rows acc = Inr recs \<Longrightarrow>
     \<exists>rs. recs = acc @ rs \<and> list_all2 (\<lambda>row r. loop_body loads repair_json row = Inr r) rows rs"
proof (induction rows arbitrary: acc)
  case Nil
  then show ?case by simp
next
  case (Cons row rest)
  then obtain r where r: "loop_body loads repair_json row = Inr r"
    and rest: "iterrows_loop loads repair_json rest (acc @ [r]) = Inr recs"
    by (auto split: sum.splits)
  from Cons.IH [OF rest] obtain rs where "recs = (acc @ [r]) @ rs"
    and "list_all2 (\<lambda>row r. loop_body loads repair_json row = Inr r) rest rs" by blast
  with r show ?case by (intro exI [of _ "r # rs"]) simp
qed

lemma iterrows_loop_all:
  "list_all2 (\<lambda>row r. loop_body loads repair_json row = Inr r) rows rs \<Longrightarrow>
     iterrows_loop loads repair_json rows acc = Inr (acc @ rs)"
  by (induction rows rs arbitrary: acc rule: list_all2_induct) simp_all

lemma iterrows_loop_Inl:
  "list_all2 (\<lambda>row r. loop_body loads repair_json row = Inr r) before rs \<Longrightarrow>
   loop_body loads repair_json row = Inl e \<Longrightarrow>
     iterrows_loop loads repair_json (before @ row # after) acc = Inl e"
  by (induction before rs arbitrary: acc rule: list_all2_induct) simp_all

lemma loop_body_exn:
  "loop_body loads repair_json row = Inl e \<Longrightarrow> e = AttributeError"
proof -
  assume raised: "loop_body loads repair_json row = Inl e"
  obtain data where data:
    "safe_json_load loads repair_json (row_get row ''completion_text'' (PStr [])) = Inr data"
    using safe_json_load_total by blast
  show ?thesis
  proof (cases "data = PNone \<or> \<not> isinstance_dict data")
    case True
    from loop_body_minimal [OF data True] raised show ?thesis by simp
  next
    case False
    then obtain d where d: "data = PDict d" by (cases data) auto
    show ?thesis
    proof (cases "isinstance_dict (py_or (dict_get d ''projected_score'' (PDict [])) (PDict []))")
      case True
      then obtain ps where "py_or (dict_get d ''projected_score'' (PDict [])) (PDict []) = PDict ps"
        by (cases "py_or (dict_get d ''projected_score'' (PDict [])) (PDict [])") auto
      from loop_body_full [OF data [unfolded d] this] raised show ?thesis by simp
    next
      case False
      from loop_body_raises [OF data [unfolded d] False] raised show ?thesis by simp
    qed
  qed
qed

lemma iterrows_loop_aborts:
  "row \<in> set rows \<Longrightarrow> loop_body loads repair_json row = Inl e \<Longrightarrow>
     iterrows_loop loads repair_json rows acc = Inl AttributeError"
proof (induction rows arbitrary: acc)
  case Nil
  then show ?case by simp
next
  case (Cons x rest)
  show ?case
  proof (cases "loop_body loads repair_json x")
    case (Inl e')
    with loop_body_exn [OF Inl] show ?thesis by simp
  next
    case (Inr r)
    with Cons.prems have "row \<in> set rest" by auto
    from Cons.IH [OF this Cons.prems(2)] Inr show ?thesis by simp
  qed
qed

lemma parse_council_df_aborts:
  "row \<in> set council_raw \<Longrightarrow> loop_body loads repair_json row = Inl e \<Longrightarrow>
     parse_council_df loads repair_json council_raw = Inl AttributeError"
  unfolding parse_council_df_def by (rule iterrows_loop_aborts)

lemma parse_council_df_nth:
  assumes "parse_council_df loads repair_json council_raw = Inr records"
  shows "length records = length council_raw"
    and "i < length council_raw \<Longrightarrow> loop_body loads repair_json (council_raw ! i) = Inr (records ! i)"
proof -
  from iterrows_loop_Inr [OF assms [unfolded parse_council_df_def]]
  have all: "list_all2 (\<lambda>row r. loop_body loads repair_json row = Inr r) council_raw records"
    by simp
  then show "length records = length council_raw" by (simp add: list_all2_lengthD)
  show "loop_body loads repair_json (council_raw ! i) = Inr (records ! i)" if "i < length council_raw"
    using list_all2_nthD [OF all that] .
qed

lemma parse_council_df_single:
  "parse_council_df loads repair_json [row] =
     (case loop_body loads repair_json row of Inl e \<Rightarrow> Inl e | Inr r \<Rightarrow> Inr [r])"
  by (simp add: parse_council_df_def split: sum.splits)

lemma loop_body_strict_dict:
  assumes "loads (row_get row ''completion_text'' (PStr [])) = Inr (PDict d)"
    and "py_or (dict_get d ''projected_score'' (PDict [])) (PDict []) = PDict ps"
  shows "loop_body loads repair_json row =
           Inr [(''model'', row_get row ''model'' PNone),
                (''valid_json'', PBool True),
                (''winner_team_id'', dict_get d ''winner_team_id'' PNone),
                (''winner_team_name'', dict_get d ''winner_team_name'' PNone),
                (''score_team_1'', dict_get ps ''1'' PNone),
                (''score_team_2'', dict_get ps ''2'' PNone),
                (''confidence_winner'', dict_get d ''confidence_winner'' PNone),
                (''confidence_score_band'', dict_get d ''confidence_score_band'' PNone),
                (''key_factors'', dict_get d ''key_factors'' (PList [])),
                (''risk_factors'', dict_get d ''risk_factors'' (PList []))]"
proof -
  from assms(1)
  have "safe_json_load loads repair_json (row_get row ''completion_text'' (PStr [])) = Inr (PDict d)"
    by (simp add: safe_json_load_def)
  from loop_body_full [OF this assms(2)] show ?thesis .
qed

lemma loop_body_cases:
  assumes "loop_body loads repair_json row = Inr r"
  obtains (minimal) data where
      "safe_json_load loads repair_json (row_get row ''completion_text'' (PStr [])) = Inr data"
      "data = PNone \<or> \<not> isinstance_dict data"
      "r = [(''model'', row_get row ''model'' PNone),
            (''raw'', row_get row ''completion_text'' (PStr [])),
            (''valid_json'', PBool False)]"
  | (full) d ps where
      "safe_json_load loads repair_json (row_get row ''completion_text'' (PStr [])) = Inr (PDict d)"
      "py_or (dict_get d ''projected_score'' (PDict [])) (PDict []) = PDict ps"
      "r = [(''model'', row_get row ''model'' PNone),
            (''valid_json'', PBool True),
            (''winner_team_id'', dict_get d ''winner_team_id'' PNone),
            (''winner_team_name'', dict_get d ''winner_team_name'' PNone),
            (''score_team_1'', dict_get ps ''1'' PNone),
            (''score_team_2'', dict_get ps ''2'' PNone),
            (''confidence_winner'', dict_get d ''confidence_winner'' PNone),
            (''confidence_score_band'', dict_get d ''confidence_score_band'' PNone),
            (''key_factors'', dict_get d ''key_factors'' (PList [])),
            (''risk_factors'', dict_get d ''risk_factors'' (PList []))]"
proof -
  obtain data where data:
    "safe_json_load loads repair_json (row_get row ''completion_text'' (PStr [])) = Inr data"
    using safe_json_load_total by blast
  show thesis
  proof (cases "data = PNone \<or> \<not> isinstance_dict data")
    case True
    from loop_body_minimal [OF data True] assms minimal [OF data True] show thesis by simp
  next
    case False
    then obtain d where d: "data = PDict d" by (cases data) auto
    show thesis
    proof (cases "isinstance_dict (py_or (dict_get d ''projected_score'' (PDict [])) (PDict []))")
      case True
      then obtain ps where ps: "py_or (dict_get d ''projected_score'' (PDict [])) (PDict []) = PDict ps"
        by (cases "py_or (dict_get d ''projected_score'' (PDict [])) (PDict [])") auto
      from loop_body_full [OF data [unfolded d] ps] assms full [OF data [unfolded d] ps]
      show thesis by simp
    next
      case False
      from loop_body_raises [OF data [unfolded d] False] assms show thesis by simp
    qed
  qed
qed

lemma loop_body_model:
  assumes "loop_body loads repair_json row = Inr r"
  shows "map_of r ''model'' = Some (row_get row ''model'' PNone)"
    and "map_of r ''valid_json'' = Some (PBool True) \<or> map_of r ''valid_json'' = Some (PBool False)"
  using assms by (cases rule: loop_body_cases; simp)+

lemma parse_council_df_complete:
  assumes "\<forall>row \<in> set council_raw. \<exists>r. loop_body loads repair_json row = Inr r"
  shows "\<exists>records. parse_council_df loads repair_json council_raw = Inr records \<and>
           list_all2 (\<lambda>row r. loop_body loads repair_json row = Inr r) council_raw records"
proof -
  from assms
  have "\<exists>rs. list_all2 (\<lambda>row r. loop_body loads repair_json row = Inr r) council_raw rs"
  proof (induction council_raw)
    case Nil
    then show ?case by simp
  next
    case (Cons row rest)
    then obtain r rs where "loop_body loads repair_json row = Inr r"
      and "list_all2 (\<lambda>row r. loop_body loads repair_json row = Inr r) rest rs"
      by auto
    then have "list_all2 (\<lambda>row r. loop_body loads repair_json row = Inr r) (row # rest) (r # rs)"
      by simp
    then show ?case by blast
  qed
  then obtain rs where rs: "list_all2 (\<lambda>row r. loop_body loads repair_json row = Inr r) council_raw rs"
    by blast
  from iterrows_loop_all [OF rs, of "[]"] rs show ?thesis
    by (auto simp: parse_council_df_def)
qed

section \<open>The claims\<close>

text \<open>
  Claim C1: no exception escapes \<^verbatim>\<open>parse_council_df\<close>, whatever the rows' completion
  texts are; one malformed row does not keep the batch from completing.

  The code does not do that. In a batch of three rows whose second completion text is
  the JSON object \<^verbatim>\<open>{"projected_score": 5}\<close>, the strict parse gives a dict,
  \<^verbatim>\<open>data.get("projected_score", {}) or {}\<close> is the int 5, and \<^verbatim>\<open>projected_score.get("1")\<close>
  raises \<^verbatim>\<open>AttributeError\<close>, which nothing catches: the call ends with that exception and
  the records of the first and third rows are lost with it. The lemma
  \<open>parse_council_df_aborts\<close> is the general form: a batch raises as soon as one of its
  rows does, and \<open>loop_body_raises\<close> says which rows do (a dict whose
  \<^verbatim>\<open>projected_score\<close> is true and not a dict).
\<close>

theorem parse_council_df_raises_on_projected_score:
  \<open>parse_council_df sample_loads None
     [[(''model'', PStr ''a''), (''completion_text'', PStr scenario_A_text)],
      [(''model'', PStr ''b''), (''completion_text'', PStr ''{"projected_score": 5}'')],
      [(''model'', PStr ''c''), (''completion_text'', PStr ''not json at all'')]]
   = Inl AttributeError\<close>
  by (simp add: parse_council_df_def loop_body_def safe_json_load_def then_do_def row_get_def
      sample_loads_def scenario_A_text_def scenario_A_data_def py_or_def dict_get_def)

text \<open>
  Claim C2: \<^verbatim>\<open>safe_json_load\<close> never raises, and it returns \<^verbatim>\<open>None\<close> when the strict
  parse fails and the repair capability is unavailable, or the repair raises, or the
  parse of the repaired text fails. The statement holds for every argument \<open>s\<close>, a
  string or not, for every behaviour of \<^verbatim>\<open>json.loads\<close> and of the repair function; an
  error is an exception derived from \<^verbatim>\<open>Exception\<close>.
\<close>

theorem safe_json_load_never_raises:
  "(\<exists>v. safe_json_load loads repair_json s = Inr v) \<and>
   ((\<exists>e. loads s = Inl e) \<and>
    (repair_json = None \<or>
     (\<exists>repair. repair_json = Some repair \<and>
        ((\<exists>e. repair s = Inl e) \<or>
         (\<exists>repaired e. repair s = Inr repaired \<and> loads repaired = Inl e))))
    \<longrightarrow> safe_json_load loads repair_json s = Inr PNone)"
proof
  show "\<exists>v. safe_json_load loads repair_json s = Inr v"
    by (rule safe_json_load_total)
next
  show "(\<exists>e. loads s = Inl e) \<and>
    (repair_json = None \<or>
     (\<exists>repair. repair_json = Some repair \<and>
        ((\<exists>e. repair s = Inl e) \<or>
         (\<exists>repaired e. repair s = Inr repaired \<and> loads repaired = Inl e))))
    \<longrightarrow> safe_json_load loads repair_json s = Inr PNone"
    by (auto simp: safe_json_load_def then_do_def)
qed

theorem safe_json_load_never_raises_witness:
  "safe_json_load sample_loads None (PStr ''not json at all'') = Inr PNone \<and>
   safe_json_load sample_loads (Some sample_repair) (PStr ''not json at all'') = Inr PNone \<and>
   safe_json_load sample_loads (Some sample_repair) (PStr ''{winner_team_id: 1,'') = Inr PNone"
  using safe_json_load_never_raises [of sample_loads None "PStr ''not json at all''"]
    safe_json_load_never_raises [of sample_loads "Some sample_repair" "PStr ''not json at all''"]
    safe_json_load_never_raises [of sample_loads "Some sample_repair" "PStr ''{winner_team_id: 1,''"]
  by (simp add: sample_loads_def sample_repair_def scenario_A_text_def)

text \<open>
  Claim C3, as the specification words it: for every string that is valid strict JSON,
  \<^verbatim>\<open>safe_json_load\<close> returns the structure the string denotes.

  It fails on a valid text that \<^verbatim>\<open>json.loads\<close> refuses. \<open>long_integer_text\<close> is an
  integer literal of strict JSON; \<^verbatim>\<open>json.loads\<close> raises \<^verbatim>\<open>ValueError\<close> on it, the
  \<^verbatim>\<open>except Exception\<close> clause takes the exception, and without a repair capability
  \<^verbatim>\<open>safe_json_load\<close> returns \<^verbatim>\<open>None\<close>, not the integer. (A text nested deeper than the
  interpreter's recursion limit does the same through \<^verbatim>\<open>RecursionError\<close>.) The source
  promises no more than it does: its docstring says \<^verbatim>\<open>None if parsing fails\<close>.
\<close>

theorem safe_json_load_long_integer_counterexample:
  "strict_json_integer long_integer_text \<and>
   safe_json_load sample_loads_limit None (PStr long_integer_text) = Inr PNone \<and>
   safe_json_load sample_loads_limit None (PStr long_integer_text)
     \<noteq> Inr (PInt (strict_json_integer_value long_integer_text))"
proof (intro conjI)
  show "strict_json_integer long_integer_text"
    by (simp add: strict_json_integer_def long_integer_text_def list_all_iff)
  show none: "safe_json_load sample_loads_limit None (PStr long_integer_text) = Inr PNone"
    by (simp add: safe_json_load_def sample_loads_limit_def)
  show "safe_json_load sample_loads_limit None (PStr long_integer_text)
     \<noteq> Inr (PInt (strict_json_integer_value long_integer_text))"
    by (simp add: none)
qed

text \<open>
  Claim C3, amended: for every string that \<^verbatim>\<open>json.loads\<close> parses, \<^verbatim>\<open>safe_json_load\<close>
  returns the value \<^verbatim>\<open>json.loads\<close> returns, whatever its shape (object, array or
  scalar) and whether a repair capability is there or not. Without a repair
  capability the converse holds too: a value other than \<^verbatim>\<open>None\<close> is returned exactly
  when \<^verbatim>\<open>json.loads\<close> returns it. So serialising a value and loading the text with
  \<^verbatim>\<open>safe_json_load\<close> gives the value back exactly when \<^verbatim>\<open>json.loads\<close> reads the
  serialisation back (\<open>dumps\<close> is any serialiser); a valid text that \<^verbatim>\<open>json.loads\<close>
  refuses is not covered.
\<close>

theorem safe_json_load_returns_strict_parse:
  "(loads s = Inr v \<longrightarrow> safe_json_load loads repair_json s = Inr v)
   \<and> (v \<noteq> PNone \<longrightarrow> (safe_json_load loads None s = Inr v) = (loads s = Inr v))
   \<and> (v \<noteq> PNone \<longrightarrow>
        (safe_json_load loads None (dumps v) = Inr v) = (loads (dumps v) = Inr v))"
proof (intro conjI impI)
  assume "loads s = Inr v"
  then show "safe_json_load loads repair_json s = Inr v"
    by (simp add: safe_json_load_def)
next
  have strict: "(safe_json_load loads None t = Inr v) = (loads t = Inr v)" if "v \<noteq> PNone" for t
  proof (cases "loads t")
    case (Inl e)
    with that show ?thesis by (auto simp: safe_json_load_def)
  next
    case (Inr w)
    then show ?thesis by (simp add: safe_json_load_def)
  qed
  {
    assume "v \<noteq> PNone"
    then show "(safe_json_load loads None s = Inr v) = (loads s = Inr v)" by (rule strict)
  }
  {
    assume "v \<noteq> PNone"
    then show "(safe_json_load loads None (dumps v) = Inr v) = (loads (dumps v) = Inr v)"
      by (rule strict)
  }
qed

theorem safe_json_load_returns_strict_parse_witness:
  "safe_json_load sample_loads None (sample_dumps scenario_A_data) = Inr scenario_A_data \<and>
   safe_json_load sample_loads (Some sample_repair) (sample_dumps (PList [PInt 1, PInt 2]))
     = Inr (PList [PInt 1, PInt 2]) \<and>
   safe_json_load sample_loads None (PStr ''42'') = Inr (PInt 42) \<and>
   safe_json_load sample_loads_limit None (PStr long_integer_text)
     \<noteq> Inr (PInt (strict_json_integer_value long_integer_text))"
proof -
  have A: "sample_loads (sample_dumps scenario_A_data) = Inr scenario_A_data"
    by (simp add: sample_loads_def sample_dumps_def)
  have L: "sample_loads (sample_dumps (PList [PInt 1, PInt 2])) = Inr (PList [PInt 1, PInt 2])"
    by (simp add: sample_loads_def sample_dumps_def scenario_A_data_def scenario_A_text_def)
  have N: "sample_loads (PStr ''42'') = Inr (PInt 42)"
    by (simp add: sample_loads_def scenario_A_text_def)
  have B: "sample_loads_limit (PStr long_integer_text)
     \<noteq> Inr (PInt (strict_json_integer_value long_integer_text))"
    by (simp add: sample_loads_limit_def)
  from safe_json_load_returns_strict_parse
      [of sample_loads "sample_dumps scenario_A_data" scenario_A_data None sample_dumps] A
  have 1: "safe_json_load sample_loads None (sample_dumps scenario_A_data) = Inr scenario_A_data"
    by (simp add: scenario_A_data_def)
  from safe_json_load_returns_strict_parse
      [of sample_loads "sample_dumps (PList [PInt 1, PInt 2])" "PList [PInt 1, PInt 2]"
          "Some sample_repair" sample_dumps] L
  have 2: "safe_json_load sample_loads (Some sample_repair) (sample_dumps (PList [PInt 1, PInt 2]))
     = Inr (PList [PInt 1, PInt 2])"
    by blast
  from safe_json_load_returns_strict_parse [of sample_loads "PStr ''42''" "PInt 42" None sample_dumps] N
  have 3: "safe_json_load sample_loads None (PStr ''42'') = Inr (PInt 42)"
    by blast
  from safe_json_load_returns_strict_parse
      [of sample_loads_limit "PStr long_integer_text"
          "PInt (strict_json_integer_value long_integer_text)" None sample_dumps] B
  have 4: "safe_json_load sample_loads_limit None (PStr long_integer_text)
     \<noteq> Inr (PInt (strict_json_integer_value long_integer_text))"
    by simp
  from 1 2 3 4 show ?thesis by blast
qed

text \<open>
  Claim C4: for every input batch, \<^verbatim>\<open>parse_council_df\<close> produces exactly one record per
  row, in the order of the rows, none dropped or duplicated.

  The code does not do that for every batch. The row \<^verbatim>\<open>[1, 2]\<close> alone gives one
  (minimal) record; followed by a row whose completion text is
  \<^verbatim>\<open>{"projected_score": "27-24"}\<close>, the call raises \<^verbatim>\<open>AttributeError\<close> and returns no
  record at all, so both rows are dropped. It is the defect of claim C1. On the
  batches where no iteration raises the invariant holds: \<open>parse_council_df_complete\<close>
  and \<open>parse_council_df_nth\<close>.
\<close>

theorem parse_council_df_no_records:
  \<open>parse_council_df sample_loads (Some sample_repair)
     [[(''model'', PStr ''a''), (''completion_text'', PStr ''[1, 2]'')]]
   = Inr [[(''model'', PStr ''a''), (''raw'', PStr ''[1, 2]''), (''valid_json'', PBool False)]]
   \<and> parse_council_df sample_loads (Some sample_repair)
     [[(''model'', PStr ''a''), (''completion_text'', PStr ''[1, 2]'')],
      [(''model'', PStr ''b''), (''completion_text'', PStr ''{"projected_score": "27-24"}'')]]
   = Inl AttributeError\<close>
  by (simp add: parse_council_df_def loop_body_def safe_json_load_def then_do_def row_get_def
      sample_loads_def scenario_A_text_def py_or_def dict_get_def)

text \<open>
  Claim C5: a row whose completion text gives \<^verbatim>\<open>None\<close> (no parse) or a value that is not
  a dict gets exactly the minimal record: the three fields \<^verbatim>\<open>model\<close>, \<^verbatim>\<open>raw\<close> (the
  completion text) and \<^verbatim>\<open>valid_json\<close> (false), and no other field. Stated for the batch
  of that one row, and for the row's position in any batch that \<^verbatim>\<open>parse_council_df\<close>
  returns records for.
\<close>

theorem minimal_failure_record:
  assumes "safe_json_load loads repair_json (row_get row ''completion_text'' (PStr [])) = Inr data"
    and "data = PNone \<or> \<not> isinstance_dict data"
  shows "parse_council_df loads repair_json [row] =
           Inr [[(''model'', row_get row ''model'' PNone),
                 (''raw'', row_get row ''completion_text'' (PStr [])),
                 (''valid_json'', PBool False)]]
         \<and> (\<forall>before after records.
               parse_council_df loads repair_json (before @ row # after) = Inr records \<longrightarrow>
               records ! length before =
                 [(''model'', row_get row ''model'' PNone),
                  (''raw'', row_get row ''completion_text'' (PStr [])),
                  (''valid_json'', PBool False)])"
proof (intro conjI allI impI)
  note body = loop_body_minimal [OF assms]
  show "parse_council_df loads repair_json [row] =
           Inr [[(''model'', row_get row ''model'' PNone),
                 (''raw'', row_get row ''completion_text'' (PStr [])),
                 (''valid_json'', PBool False)]]"
    by (simp add: parse_council_df_single body)
  fix before after records
  assume "parse_council_df loads repair_json (before @ row # after) = Inr records"
  from parse_council_df_nth(2) [OF this, of "length before"] body
  show "records ! length before =
                 [(''model'', row_get row ''model'' PNone),
                  (''raw'', row_get row ''completion_text'' (PStr [])),
                  (''valid_json'', PBool False)]"
    by simp
qed

theorem minimal_failure_record_witness:
  "parse_council_df sample_loads None [[(''model'', PStr ''m''), (''completion_text'', PStr ''not json at all'')]] =
     Inr [[(''model'', PStr ''m''), (''raw'', PStr ''not json at all''), (''valid_json'', PBool False)]] \<and>
   parse_council_df sample_loads None [[(''model'', PStr ''m''), (''completion_text'', PStr ''[1, 2]'')]] =
     Inr [[(''model'', PStr ''m''), (''raw'', PStr ''[1, 2]''), (''valid_json'', PBool False)]] \<and>
   parse_council_df sample_loads None [[(''completion_text'', PStr ''42'')]] =
     Inr [[(''model'', PNone), (''raw'', PStr ''42''), (''valid_json'', PBool False)]]"
  using minimal_failure_record [of sample_loads None "[(''model'', PStr ''m''), (''completion_text'', PStr ''not json at all'')]" PNone]
    minimal_failure_record [of sample_loads None "[(''model'', PStr ''m''), (''completion_text'', PStr ''[1, 2]'')]" "PList [PInt 1, PInt 2]"]
    minimal_failure_record [of sample_loads None "[(''completion_text'', PStr ''42'')]" "PInt 42"]
  by (simp add: safe_json_load_def sample_loads_def row_get_def scenario_A_text_def)

text \<open>
  Claim C6 (Scenario A): given that the strict parse of the scenario's text is the dict
  \<open>scenario_A_data\<close>, the row's record has \<^verbatim>\<open>valid_json\<close> true, \<^verbatim>\<open>winner_team_id\<close> 1,
  \<^verbatim>\<open>winner_team_name\<close> "Texas", \<^verbatim>\<open>score_team_1\<close> 27, \<^verbatim>\<open>score_team_2\<close> 24,
  \<^verbatim>\<open>confidence_winner\<close> 0.63, \<^verbatim>\<open>confidence_score_band\<close> "medium", \<^verbatim>\<open>key_factors\<close>
  ["offense"] and \<^verbatim>\<open>risk_factors\<close> []. The two scores are read from the nested
  \<^verbatim>\<open>projected_score\<close> dict under the string keys "1" and "2": so it is for every row
  whose text parses to a dict with a dict under \<^verbatim>\<open>projected_score\<close>.
\<close>

theorem scenario_A_record:
  assumes "loads (PStr scenario_A_text) = Inr scenario_A_data"
    and "row_get row ''completion_text'' (PStr []) = PStr scenario_A_text"
  shows "parse_council_df loads repair_json [row] =
           Inr [[(''model'', row_get row ''model'' PNone),
                 (''valid_json'', PBool True),
                 (''winner_team_id'', PInt 1),
                 (''winner_team_name'', PStr ''Texas''),
                 (''score_team_1'', PInt 27),
                 (''score_team_2'', PInt 24),
                 (''confidence_winner'', PFloat 0x3FE428F5C28F5C29),
                 (''confidence_score_band'', PStr ''medium''),
                 (''key_factors'', PList [PStr ''offense'']),
                 (''risk_factors'', PList [])]]
         \<and> (\<forall>other d ps.
               loads (row_get other ''completion_text'' (PStr [])) = Inr (PDict d) \<and>
               map_of d ''projected_score'' = Some (PDict ps) \<longrightarrow>
               (\<exists>r. loop_body loads repair_json other = Inr r \<and>
                    map_of r ''score_team_1'' = Some (dict_get ps ''1'' PNone) \<and>
                    map_of r ''score_team_2'' = Some (dict_get ps ''2'' PNone)))"
proof (intro conjI allI impI)
  have "loads (row_get row ''completion_text'' (PStr [])) =
          Inr (PDict [(''winner_team_id'', PInt 1),
            (''winner_team_name'', PStr ''Texas''),
            (''projected_score'', PDict [(''1'', PInt 27), (''2'', PInt 24)]),
            (''confidence_winner'', PFloat 0x3FE428F5C28F5C29),
            (''confidence_score_band'', PStr ''medium''),
            (''key_factors'', PList [PStr ''offense'']),
            (''risk_factors'', PList [])])"
    using assms by (simp add: scenario_A_data_def)
  from loop_body_strict_dict [where loads = loads and row = row and repair_json = repair_json
      and ps = "[(''1'', PInt 27), (''2'', PInt 24)]", OF this]
  show "parse_council_df loads repair_json [row] =
           Inr [[(''model'', row_get row ''model'' PNone),
                 (''valid_json'', PBool True),
                 (''winner_team_id'', PInt 1),
                 (''winner_team_name'', PStr ''Texas''),
                 (''score_team_1'', PInt 27),
                 (''score_team_2'', PInt 24),
                 (''confidence_winner'', PFloat 0x3FE428F5C28F5C29),
                 (''confidence_score_band'', PStr ''medium''),
                 (''key_factors'', PList [PStr ''offense'']),
                 (''risk_factors'', PList [])]]"
    by (simp add: parse_council_df_single dict_get_def py_or_def)
next
  fix other d ps
  assume a: "loads (row_get other ''completion_text'' (PStr [])) = Inr (PDict d) \<and>
               map_of d ''projected_score'' = Some (PDict ps)"
  then have "py_or (dict_get d ''projected_score'' (PDict [])) (PDict []) = PDict ps"
    by (cases ps) (simp_all add: py_or_def dict_get_def)
  from loop_body_strict_dict [where loads = loads and row = other and repair_json = repair_json,
      OF conjunct1 [OF a] this]
  show "\<exists>r. loop_body loads repair_json other = Inr r \<and>
                    map_of r ''score_team_1'' = Some (dict_get ps ''1'' PNone) \<and>
                    map_of r ''score_team_2'' = Some (dict_get ps ''2'' PNone)"
    by simp
qed

theorem scenario_A_record_witness:
  "parse_council_df sample_loads None
     [[(''model'', PStr ''council-member-1''), (''completion_text'', PStr scenario_A_text)]] =
   Inr [[(''model'', PStr ''council-member-1''),
         (''valid_json'', PBool True),
         (''winner_team_id'', PInt 1),
         (''winner_team_name'', PStr ''Texas''),
         (''score_team_1'', PInt 27),
         (''score_team_2'', PInt 24),
         (''confidence_winner'', PFloat 0x3FE428F5C28F5C29),
         (''confidence_score_band'', PStr ''medium''),
         (''key_factors'', PList [PStr ''offense'']),
         (''risk_factors'', PList [])]]"
  using scenario_A_record [of sample_loads
      "[(''model'', PStr ''council-member-1''), (''completion_text'', PStr scenario_A_text)]" None]
  by (simp add: sample_loads_def row_get_def)

text \<open>
  Claim C7: the prompt starts with the system prompt, followed by a blank line and the
  section header; the header is followed by the game data, a blank line and the fixed
  two-line instruction, which ends the prompt. Together with the length, the two facts
  fix every character of the result. The result is a function of the two arguments
  alone (the source reads no clock, no random source and no state), which is the
  determinism; for "SYS" and "DATA" it is the text given.
\<close>

theorem build_agent_prompt_text_layout:
  "prefix (agent_system_prompt @ ''\<newline>\<newline>----- GAME_DATA (TOON) -----\<newline>'')
     (build_agent_prompt_text agent_system_prompt game_data_text)
   \<and> suffix (''----- GAME_DATA (TOON) -----\<newline>'' @ game_data_text @
        ''\<newline>\<newline>You are part of a council predicting the outcome of this game.\<newline>Return ONLY a single JSON object matching the agreed schema.'')
       (build_agent_prompt_text agent_system_prompt game_data_text)
   \<and> length (build_agent_prompt_text agent_system_prompt game_data_text) =
       length agent_system_prompt + 2 + 29 + length game_data_text + 2 + 123
   \<and> build_agent_prompt_text ''SYS'' ''DATA'' =
       ''SYS\<newline>\<newline>----- GAME_DATA (TOON) -----\<newline>DATA\<newline>\<newline>You are part of a council predicting the outcome of this game.\<newline>Return ONLY a single JSON object matching the agreed schema.''"
proof (intro conjI)
  show "prefix (agent_system_prompt @ ''\<newline>\<newline>----- GAME_DATA (TOON) -----\<newline>'')
     (build_agent_prompt_text agent_system_prompt game_data_text)"
    by (simp add: build_agent_prompt_text_def)
  show "suffix (''----- GAME_DATA (TOON) -----\<newline>'' @ game_data_text @
        ''\<newline>\<newline>You are part of a council predicting the outcome of this game.\<newline>Return ONLY a single JSON object matching the agreed schema.'')
       (build_agent_prompt_text agent_system_prompt game_data_text)"
    unfolding build_agent_prompt_text_def suffix_def
    by (intro exI [of _ "agent_system_prompt @ ''\<newline>\<newline>''"]) simp
  show "length (build_agent_prompt_text agent_system_prompt game_data_text) =
       length agent_system_prompt + 2 + 29 + length game_data_text + 2 + 123"
    by (simp add: build_agent_prompt_text_def)
  show "build_agent_prompt_text ''SYS'' ''DATA'' =
       ''SYS\<newline>\<newline>----- GAME_DATA (TOON) -----\<newline>DATA\<newline>\<newline>You are part of a council predicting the outcome of this game.\<newline>Return ONLY a single JSON object matching the agreed schema.''"
    by (simp add: build_agent_prompt_text_def)
qed

text \<open>
  Claim C8: the record of a row carries the row's model unchanged, in the minimal
  record (\<^verbatim>\<open>valid_json\<close> false) and in the full one (\<^verbatim>\<open>valid_json\<close> true): under the
  condition of each branch the call on the row returns that record. The model is
  \<^verbatim>\<open>None\<close> when the row has no label \<^verbatim>\<open>model\<close>, and the text that is parsed and stored
  under \<^verbatim>\<open>raw\<close> is the empty string when the row has no label \<^verbatim>\<open>completion_text\<close>; such a
  row is processed as the row with the default written in. The model is also carried
  at every position of a batch that \<^verbatim>\<open>parse_council_df\<close> returns records for.
\<close>

theorem model_and_completion_text_defaults:
  "(\<forall>data.
       safe_json_load loads repair_json (row_get row ''completion_text'' (PStr [])) = Inr data \<and>
       (data = PNone \<or> \<not> isinstance_dict data) \<longrightarrow>
       parse_council_df loads repair_json [row] =
         Inr [[(''model'', row_get row ''model'' PNone),
               (''raw'', row_get row ''completion_text'' (PStr [])),
               (''valid_json'', PBool False)]])
   \<and> (\<forall>d ps.
       safe_json_load loads repair_json (row_get row ''completion_text'' (PStr [])) = Inr (PDict d) \<and>
       py_or (dict_get d ''projected_score'' (PDict [])) (PDict []) = PDict ps \<longrightarrow>
       (\<exists>r. parse_council_df loads repair_json [row] = Inr [r] \<and>
            map_of r ''model'' = Some (row_get row ''model'' PNone) \<and>
            map_of r ''valid_json'' = Some (PBool True)))
   \<and> (map_of row ''model'' = None \<longrightarrow> row_get row ''model'' PNone = PNone)
   \<and> (\<forall>m. map_of row ''model'' = Some m \<longrightarrow> row_get row ''model'' PNone = m)
   \<and> (map_of row ''completion_text'' = None \<longrightarrow>
        row_get row ''completion_text'' (PStr []) = PStr [])
   \<and> (\<forall>t. map_of row ''completion_text'' = Some t \<longrightarrow>
        row_get row ''completion_text'' (PStr []) = t)
   \<and> (map_of row ''model'' = None \<longrightarrow>
      loop_body loads repair_json row = loop_body loads repair_json ((''model'', PNone) # row))
   \<and> (map_of row ''completion_text'' = None \<longrightarrow>
      loop_body loads repair_json row =
        loop_body loads repair_json ((''completion_text'', PStr []) # row))
   \<and> (\<forall>r. loop_body loads repair_json row = Inr r \<longrightarrow>
          map_of r ''model'' = Some (row_get row ''model'' PNone) \<and>
          (map_of r ''valid_json'' = Some (PBool True) \<or>
           map_of r ''valid_json'' = Some (PBool False)))
   \<and> (\<forall>records i.
          parse_council_df loads repair_json council_raw = Inr records \<and> i < length council_raw \<longrightarrow>
          map_of (records ! i) ''model'' = Some (row_get (council_raw ! i) ''model'' PNone))"
proof (intro conjI allI impI)
  fix data
  assume a: "safe_json_load loads repair_json (row_get row ''completion_text'' (PStr [])) = Inr data \<and>
       (data = PNone \<or> \<not> isinstance_dict data)"
  from loop_body_minimal [OF conjunct1 [OF a] conjunct2 [OF a]]
  show "parse_council_df loads repair_json [row] =
         Inr [[(''model'', row_get row ''model'' PNone),
               (''raw'', row_get row ''completion_text'' (PStr [])),
               (''valid_json'', PBool False)]]"
    by (simp add: parse_council_df_single)
next
  fix d ps
  assume a: "safe_json_load loads repair_json (row_get row ''completion_text'' (PStr [])) = Inr (PDict d) \<and>
       py_or (dict_get d ''projected_score'' (PDict [])) (PDict []) = PDict ps"
  from loop_body_full [OF conjunct1 [OF a] conjunct2 [OF a]]
  show "\<exists>r. parse_council_df loads repair_json [row] = Inr [r] \<and>
            map_of r ''model'' = Some (row_get row ''model'' PNone) \<and>
            map_of r ''valid_json'' = Some (PBool True)"
    by (simp add: parse_council_df_single)
next
  assume "map_of row ''model'' = None"
  then show "row_get row ''model'' PNone = PNone" by (simp add: row_get_def)
next
  fix m assume "map_of row ''model'' = Some m"
  then show "row_get row ''model'' PNone = m" by (simp add: row_get_def)
next
  assume "map_of row ''completion_text'' = None"
  then show "row_get row ''completion_text'' (PStr []) = PStr []" by (simp add: row_get_def)
next
  fix t assume "map_of row ''completion_text'' = Some t"
  then show "row_get row ''completion_text'' (PStr []) = t" by (simp add: row_get_def)
next
  assume "map_of row ''model'' = None"
  then show "loop_body loads repair_json row = loop_body loads repair_json ((''model'', PNone) # row)"
    by (simp add: loop_body_def row_get_def)
next
  assume "map_of row ''completion_text'' = None"
  then show "loop_body loads repair_json row =
        loop_body loads repair_json ((''completion_text'', PStr []) # row)"
    by (simp add: loop_body_def row_get_def)
next
  fix r assume r: "loop_body loads repair_json row = Inr r"
  from loop_body_model(1) [OF r]
  show "map_of r ''model'' = Some (row_get row ''model'' PNone)" .
  from loop_body_model(2) [OF r]
  show "map_of r ''valid_json'' = Some (PBool True) \<or> map_of r ''valid_json'' = Some (PBool False)" .
next
  fix records i
  assume a: "parse_council_df loads repair_json council_raw = Inr records \<and> i < length council_raw"
  from parse_council_df_nth(2) [OF conjunct1 [OF a] conjunct2 [OF a]]
  show "map_of (records ! i) ''model'' = Some (row_get (council_raw ! i) ''model'' PNone)"
    by (rule loop_body_model(1))
qed

theorem model_and_completion_text_defaults_witness:
  "parse_council_df sample_loads None [[]] =
     Inr [[(''model'', PNone), (''raw'', PStr []), (''valid_json'', PBool False)]]
   \<and> parse_council_df sample_loads None
       [[(''model'', PStr ''m''), (''completion_text'', PStr ''not json at all'')]] =
     Inr [[(''model'', PStr ''m''), (''raw'', PStr ''not json at all''),
           (''valid_json'', PBool False)]]
   \<and> (\<exists>r. parse_council_df sample_loads None
            [[(''model'', PStr ''m''), (''completion_text'', PStr ''{}'')]] = Inr [r] \<and>
          map_of r ''model'' = Some (PStr ''m'') \<and>
          map_of r ''valid_json'' = Some (PBool True))
   \<and> (\<exists>r. parse_council_df sample_loads None
            [[(''completion_text'', PStr scenario_A_text)]] = Inr [r] \<and>
          map_of r ''model'' = Some PNone \<and>
          map_of r ''valid_json'' = Some (PBool True))"
proof -
  have e: "safe_json_load sample_loads None (row_get [] ''completion_text'' (PStr [])) = Inr PNone"
    by (simp add: safe_json_load_def sample_loads_def row_get_def scenario_A_text_def)
  have g: "safe_json_load sample_loads None
      (row_get [(''model'', PStr ''m''), (''completion_text'', PStr ''not json at all'')]
         ''completion_text'' (PStr [])) = Inr PNone"
    by (simp add: safe_json_load_def sample_loads_def row_get_def scenario_A_text_def)
  have o: "safe_json_load sample_loads None
      (row_get [(''model'', PStr ''m''), (''completion_text'', PStr ''{}'')]
         ''completion_text'' (PStr [])) = Inr (PDict [])"
    by (simp add: safe_json_load_def sample_loads_def row_get_def scenario_A_text_def)
  have s: "safe_json_load sample_loads None
      (row_get [(''completion_text'', PStr scenario_A_text)] ''completion_text'' (PStr []))
      = Inr scenario_A_data"
    by (simp add: safe_json_load_def sample_loads_def row_get_def)
  from model_and_completion_text_defaults [of sample_loads None "[]" "[]"] e
  have 1: "parse_council_df sample_loads None [[]] =
     Inr [[(''model'', PNone), (''raw'', PStr []), (''valid_json'', PBool False)]]"
    by simp
  from model_and_completion_text_defaults [of sample_loads None
      "[(''model'', PStr ''m''), (''completion_text'', PStr ''not json at all'')]" "[]"] g
  have 2: "parse_council_df sample_loads None
       [[(''model'', PStr ''m''), (''completion_text'', PStr ''not json at all'')]] =
     Inr [[(''model'', PStr ''m''), (''raw'', PStr ''not json at all''),
           (''valid_json'', PBool False)]]"
    by simp
  from model_and_completion_text_defaults [of sample_loads None
      "[(''model'', PStr ''m''), (''completion_text'', PStr ''{}'')]" "[]"] o
  have 3: "\<exists>r. parse_council_df sample_loads None
            [[(''model'', PStr ''m''), (''completion_text'', PStr ''{}'')]] = Inr [r] \<and>
          map_of r ''model'' = Some (PStr ''m'') \<and>
          map_of r ''valid_json'' = Some (PBool True)"
    by (auto simp: py_or_def dict_get_def)
  from model_and_completion_text_defaults [of sample_loads None
      "[(''completion_text'', PStr scenario_A_text)]" "[]"] s
  have 4: "\<exists>r. parse_council_df sample_loads None
            [[(''completion_text'', PStr scenario_A_text)]] = Inr [r] \<and>
          map_of r ''model'' = Some PNone \<and>
          map_of r ''valid_json'' = Some (PBool True)"
    by (auto simp: py_or_def dict_get_def scenario_A_data_def)
  from 1 2 3 4 show ?thesis by blast
qed

text \<open>
  Claim C9: when the completion text gives a dict in which \<^verbatim>\<open>projected_score\<close> is absent
  or maps to a false value (\<^verbatim>\<open>None\<close>, 0, the empty string, the empty list, \<^verbatim>\<open>False\<close> are
  false values), \<^verbatim>\<open>projected_score\<close> is the empty dict and the row's record is the full
  one, with \<^verbatim>\<open>valid_json\<close> true and both scores \<^verbatim>\<open>None\<close>.
\<close>

theorem falsy_projected_score:
  assumes "safe_json_load loads repair_json (row_get row ''completion_text'' (PStr [])) = Inr (PDict d)"
    and "map_of d ''projected_score'' = None \<or>
         (\<exists>v. map_of d ''projected_score'' = Some v \<and> \<not> py_truthy v)"
  shows "parse_council_df loads repair_json [row] =
           Inr [[(''model'', row_get row ''model'' PNone),
                 (''valid_json'', PBool True),
                 (''winner_team_id'', dict_get d ''winner_team_id'' PNone),
                 (''winner_team_name'', dict_get d ''winner_team_name'' PNone),
                 (''score_team_1'', PNone),
                 (''score_team_2'', PNone),
                 (''confidence_winner'', dict_get d ''confidence_winner'' PNone),
                 (''confidence_score_band'', dict_get d ''confidence_score_band'' PNone),
                 (''key_factors'', dict_get d ''key_factors'' (PList [])),
                 (''risk_factors'', dict_get d ''risk_factors'' (PList []))]]
         \<and> py_or (dict_get d ''projected_score'' (PDict [])) (PDict []) = PDict []
         \<and> \<not> py_truthy PNone \<and> \<not> py_truthy (PInt 0) \<and> \<not> py_truthy (PStr [])
         \<and> \<not> py_truthy (PList []) \<and> \<not> py_truthy (PBool False)"
proof -
  from assms(2) have empty: "py_or (dict_get d ''projected_score'' (PDict [])) (PDict []) = PDict []"
    by (auto simp: py_or_def dict_get_def)
  from loop_body_full [OF assms(1) empty] empty show ?thesis
    by (simp add: parse_council_df_single dict_get_def)
qed

theorem falsy_projected_score_witness:
  \<open>parse_council_df sample_loads None
     [[(''model'', PStr ''m''),
       (''completion_text'', PStr ''{"projected_score": 0, "key_factors": null}'')]] =
   Inr [[(''model'', PStr ''m''), (''valid_json'', PBool True),
         (''winner_team_id'', PNone), (''winner_team_name'', PNone),
         (''score_team_1'', PNone), (''score_team_2'', PNone),
         (''confidence_winner'', PNone), (''confidence_score_band'', PNone),
         (''key_factors'', PNone), (''risk_factors'', PList [])]]
   \<and> parse_council_df sample_loads None
     [[(''completion_text'', PStr ''{"projected_score": [], "winner_team_name": "Rice"}'')]] =
   Inr [[(''model'', PNone), (''valid_json'', PBool True),
         (''winner_team_id'', PNone), (''winner_team_name'', PStr ''Rice''),
         (''score_team_1'', PNone), (''score_team_2'', PNone),
         (''confidence_winner'', PNone), (''confidence_score_band'', PNone),
         (''key_factors'', PList []), (''risk_factors'', PList [])]]
   \<and> parse_council_df sample_loads None [[(''completion_text'', PStr ''{}'')]] =
   Inr [[(''model'', PNone), (''valid_json'', PBool True),
         (''winner_team_id'', PNone), (''winner_team_name'', PNone),
         (''score_team_1'', PNone), (''score_team_2'', PNone),
         (''confidence_winner'', PNone), (''confidence_score_band'', PNone),
         (''key_factors'', PList []), (''risk_factors'', PList [])]]\<close>
  using
    falsy_projected_score [of sample_loads None
      \<open>[(''model'', PStr ''m''),
        (''completion_text'', PStr ''{"projected_score": 0, "key_factors": null}'')]\<close>
      "[(''projected_score'', PInt 0), (''key_factors'', PNone)]"]
    falsy_projected_score [of sample_loads None
      \<open>[(''completion_text'', PStr ''{"projected_score": [], "winner_team_name": "Rice"}'')]\<close>
      "[(''projected_score'', PList []), (''winner_team_name'', PStr ''Rice'')]"]
    falsy_projected_score [of sample_loads None
      \<open>[(''completion_text'', PStr ''{}'')]\<close> "[]"]
  by (simp add: safe_json_load_def sample_loads_def row_get_def scenario_A_text_def dict_get_def)



end
